theory Spec2Isabelle
  imports Main "HOL-Library.Sublist"
begin

section \<open>Wallet authentication of the PsyFi backend\<close>

text \<open>
  A shallow embedding of the authentication router (connect, refresh, disconnect and the
  nonce route), of the session and user queries of \<open>DatabaseService\<close> and of the
  key/value operations of \<open>RedisService\<close> that the router calls.

  Conventions.
  \<^item> Instants are milliseconds since the epoch, as \<open>Date.now()\<close> returns them
    (\<open>nat\<close>); differences of instants are taken in \<open>int\<close>, as the source subtracts
    numbers.
  \<^item> Every reading of a clock and every draw of \<open>Math.random()\<close> is an argument of the
    function that makes it.
  \<^item> A call that can throw returns \<open>None\<close> (or a response built by the handler's
    \<open>catch\<close> block); whether the connection to a store works is an argument too.
\<close>

subsection \<open>Strings and numbers\<close>

definition is_digit :: "char \<Rightarrow> bool" where
  "is_digit c = (c \<in> set ''0123456789'')"

definition is_hex :: "char \<Rightarrow> bool" where
  "is_hex c = (c \<in> set ''0123456789abcdefABCDEF'')"


definition digit_val :: "char \<Rightarrow> nat" where
  "digit_val c = of_char c - 48"

text \<open>\<open>Number.parseInt(ds, 10)\<close> on a non-empty run of decimal digits.\<close>

definition parseInt10 :: "string \<Rightarrow> nat" where
  "parseInt10 ds = foldl (\<lambda>acc c. 10 * acc + digit_val c) 0 ds"

text \<open>The decimal numeral a template literal writes for a non-negative integer.\<close>

definition digit_char :: "nat \<Rightarrow> char" where
  "digit_char d = ''0123456789'' ! (d mod 10)"

function string_of_nat :: "nat \<Rightarrow> string" where
  "string_of_nat n =
     (if n < 10 then [digit_char n]
      else string_of_nat (n div 10) @ [digit_char (n mod 10)])"
  by pat_completeness auto
termination
  by (relation "measure id") auto

declare string_of_nat.simps [simp del]

text \<open>\<open>String.prototype.toLowerCase\<close> on the ASCII letters.\<close>

definition lower_char :: "char \<Rightarrow> char" where
  "lower_char c =
     (case map_of (zip ''ABCDEFGHIJKLMNOPQRSTUVWXYZ'' ''abcdefghijklmnopqrstuvwxyz'') c of
        Some l \<Rightarrow> l
      | None \<Rightarrow> c)"

definition toLowerCase :: "string \<Rightarrow> string" where
  "toLowerCase s = map lower_char s"

text \<open>\<open>String.prototype.substr(start, len)\<close> for a start that is not negative.\<close>

definition substr :: "string \<Rightarrow> nat \<Rightarrow> nat \<Rightarrow> string" where
  "substr s start len = take len (drop start s)"

subsection \<open>Utility functions of the router\<close>


text \<open>\<open>generateSessionId\<close>: \<open>sess_${Date.now()}_${Math.random().toString(36).substr(2, 9)}\<close>.\<close>

definition generateSessionId :: "nat \<Rightarrow> string \<Rightarrow> string" where
  "generateSessionId now rnd36 = ''sess_'' @ string_of_nat now @ ''_'' @ substr rnd36 2 9"

text \<open>
  \<open>message.match(/Timestamp: (\d+)/)\<close>: the leftmost place where the literal is followed
  by at least one decimal digit; the group is the longest run of digits there.
\<close>

fun match_timestamp :: "string \<Rightarrow> string option" where
  "match_timestamp [] = None"
| "match_timestamp (c # cs) =
     (if prefix ''Timestamp: '' (c # cs) \<and> takeWhile is_digit (drop 11 (c # cs)) \<noteq> []
      then Some (takeWhile is_digit (drop 11 (c # cs)))
      else match_timestamp cs)"

definition extractTimestampFromMessage :: "string \<Rightarrow> nat" where
  "extractTimestampFromMessage message =
     (case match_timestamp message of Some ds \<Rightarrow> parseInt10 ds | None \<Rightarrow> 0)"

definition fiveMinutes :: int where
  "fiveMinutes = 5 * 60 * 1000"

text \<open>The guard of the freshness check of connect: \<open>now - messageTimestamp > fiveMinutes\<close>.\<close>

definition message_expired :: "nat \<Rightarrow> string \<Rightarrow> bool" where
  "message_expired now message =
     (int now - int (extractTimestampFromMessage message) > fiveMinutes)"

subsection \<open>RedisService\<close>

text \<open>
  What the router caches: the session payload \<open>{userId, walletAddress, username}\<close>,
  written as JSON by \<open>setJSON\<close>, and the nonce, written as a plain string by \<open>set\<close>.
  A stored JSON text is kept in parsed form (\<open>JSON.parse\<close> undoes \<open>JSON.stringify\<close> on
  these payloads).
\<close>

record cached_session =
  cs_userId :: nat
  cs_walletAddress :: string
  cs_username :: "string option"

datatype redis_value = Raw string | Json cached_session

text \<open>A key holds a value and, when it was written by \<open>SETEX\<close>, the instant it expires.\<close>

type_synonym redis = "string \<Rightarrow> (redis_value \<times> nat option) option"

text \<open>
  \<open>RedisService.get\<close>: the value, or \<open>null\<close> when the key is absent, has expired, or the
  client throws (\<open>up\<close> is false).
\<close>

definition redis_get :: "redis \<Rightarrow> bool \<Rightarrow> nat \<Rightarrow> string \<Rightarrow> redis_value option" where
  "redis_get cache up now key =
     (if \<not> up then None
      else case cache key of
             None \<Rightarrow> None
           | Some (v, None) \<Rightarrow> Some v
           | Some (v, Some expiry) \<Rightarrow> if now < expiry then Some v else None)"

text \<open>
  \<open>RedisService.set\<close>: \<open>SETEX\<close> when \<open>ttl\<close> is truthy, \<open>SET\<close> otherwise; a thrown
  error is caught and the call returns \<open>false\<close>.
\<close>

definition redis_set ::
  "redis \<Rightarrow> bool \<Rightarrow> nat \<Rightarrow> string \<Rightarrow> redis_value \<Rightarrow> nat option \<Rightarrow> bool \<times> redis" where
  "redis_set cache up now key v ttl =
     (if \<not> up then (False, cache)
      else case ttl of
             None \<Rightarrow> (True, cache(key \<mapsto> (v, None)))
           | Some secs \<Rightarrow>
               if secs = 0 then (True, cache(key \<mapsto> (v, None)))
               else (True, cache(key \<mapsto> (v, Some (now + secs * 1000)))))"

definition redis_del :: "redis \<Rightarrow> bool \<Rightarrow> string \<Rightarrow> bool \<times> redis" where
  "redis_del cache up key = (if \<not> up then (False, cache) else (True, cache(key := None)))"

definition session_key :: "string \<Rightarrow> string" where
  "session_key sessionId = ''session:'' @ sessionId"

definition nonce_key :: "string \<Rightarrow> string" where
  "nonce_key walletAddress = ''nonce:'' @ walletAddress"

definition cacheUserSession ::
  "redis \<Rightarrow> bool \<Rightarrow> nat \<Rightarrow> string \<Rightarrow> cached_session \<Rightarrow> nat \<Rightarrow> bool \<times> redis" where
  "cacheUserSession cache up now sessionId userData ttl =
     redis_set cache up now (session_key sessionId) (Json userData) (Some ttl)"

text \<open>
  \<open>getCachedUserSession\<close> is \<open>getJSON\<close> on the session key. A raw string under that key
  is not the JSON text of a session payload and yields none.
\<close>

definition getCachedUserSession :: "redis \<Rightarrow> bool \<Rightarrow> nat \<Rightarrow> string \<Rightarrow> cached_session option" where
  "getCachedUserSession cache up now sessionId =
     (case redis_get cache up now (session_key sessionId) of
        Some (Json userData) \<Rightarrow> Some userData
      | _ \<Rightarrow> None)"

definition invalidateUserSession :: "redis \<Rightarrow> bool \<Rightarrow> string \<Rightarrow> bool \<times> redis" where
  "invalidateUserSession cache up sessionId = redis_del cache up (session_key sessionId)"

subsection \<open>DatabaseService\<close>

text \<open>Rows of the tables \<open>users\<close> and \<open>api_sessions\<close> of \<open>init.sql\<close>.\<close>

record user =
  u_id :: nat
  u_wallet_address :: string
  u_username :: "string option"
  u_email :: "string option"
  u_preferences :: string
  u_created_at :: nat
  u_updated_at :: nat

record session_row =
  s_session_id :: string
  s_user_id :: nat
  s_wallet_address :: string
  s_expires_at :: nat
  s_created_at :: nat

record database =
  users :: "user list"
  users_id_seq :: nat
  api_sessions :: "session_row list"

definition coalesce :: "'a option \<Rightarrow> 'a option \<Rightarrow> 'a option" where
  "coalesce a b = (case a of Some x \<Rightarrow> Some x | None \<Rightarrow> b)"

definition fits :: "nat \<Rightarrow> string option \<Rightarrow> bool" where
  "fits n v = (case v of None \<Rightarrow> True | Some s \<Rightarrow> length s \<le> n)"

text \<open>
  \<open>createUser\<close>: \<open>INSERT ... ON CONFLICT (wallet_address) DO UPDATE SET username =
  COALESCE($2, users.username), email = COALESCE($3, users.email), updated_at =
  CURRENT_TIMESTAMP RETURNING *\<close>. The statement throws (\<open>None\<close>) when the pool fails
  (\<open>up\<close> is false), when a value is longer than its \<open>VARCHAR\<close> column, or when the
  identifier drawn from the sequence is taken. The sequence advances on both paths.
\<close>

definition createUser ::
  "database \<Rightarrow> bool \<Rightarrow> nat \<Rightarrow> string \<Rightarrow> string option \<Rightarrow> string option
     \<Rightarrow> (user \<times> database) option" where
  "createUser db up now walletAddress username email =
     (if \<not> up \<or> length walletAddress > 42 \<or> \<not> fits 50 username \<or> \<not> fits 255 email
      then None
      else case find (\<lambda>r. u_wallet_address r = walletAddress) (users db) of
             Some old \<Rightarrow>
               (let row = old\<lparr>u_username := coalesce username (u_username old),
                              u_email := coalesce email (u_email old),
                              u_updated_at := now\<rparr>
                in Some (row,
                     db\<lparr>users := map (\<lambda>r. if u_wallet_address r = walletAddress then row else r)
                                    (users db),
                        users_id_seq := users_id_seq db + 1\<rparr>))
           | None \<Rightarrow>
               if users_id_seq db \<in> set (map u_id (users db)) then None
               else
                 (let row = \<lparr>u_id = users_id_seq db, u_wallet_address = walletAddress,
                              u_username = username, u_email = email,
                              u_preferences = ''{}'', u_created_at = now, u_updated_at = now\<rparr>
                  in Some (row,
                       db\<lparr>users := users db @ [row], users_id_seq := users_id_seq db + 1\<rparr>)))"

text \<open>\<open>getUserByWallet\<close>: the first row of the select, \<open>undefined\<close> when there is none.\<close>

definition getUserByWallet :: "database \<Rightarrow> bool \<Rightarrow> string \<Rightarrow> user option option" where
  "getUserByWallet db up walletAddress =
     (if \<not> up then None
      else Some (find (\<lambda>r. u_wallet_address r = walletAddress) (users db)))"

text \<open>
  \<open>createSession\<close>: a plain insert. It throws when the pool fails, when a value is longer
  than its column, when the session identifier is already there (\<open>UNIQUE\<close>) or when the
  user identifier references no user.
\<close>

definition createSession ::
  "database \<Rightarrow> bool \<Rightarrow> nat \<Rightarrow> string \<Rightarrow> nat \<Rightarrow> string \<Rightarrow> nat
     \<Rightarrow> (session_row \<times> database) option" where
  "createSession db up now sessionId userId walletAddress expiresAt =
     (if \<not> up \<or> length sessionId > 255 \<or> length walletAddress > 42
         \<or> sessionId \<in> set (map s_session_id (api_sessions db))
         \<or> userId \<notin> set (map u_id (users db))
      then None
      else
        (let row = \<lparr>s_session_id = sessionId, s_user_id = userId,
                     s_wallet_address = walletAddress, s_expires_at = expiresAt,
                     s_created_at = now\<rparr>
         in Some (row, db\<lparr>api_sessions := api_sessions db @ [row]\<rparr>)))"

text \<open>
  \<open>getSession\<close>: the join of the session with its user, \<open>WHERE s.session_id = $1 AND
  s.expires_at > CURRENT_TIMESTAMP\<close>; the first row, \<open>undefined\<close> when there is none.
\<close>

definition getSession ::
  "database \<Rightarrow> bool \<Rightarrow> nat \<Rightarrow> string \<Rightarrow> (session_row \<times> user) option option" where
  "getSession db up now sessionId =
     (if \<not> up then None
      else Some
        (case [(s, u). s \<leftarrow> api_sessions db, u \<leftarrow> users db,
                 s_user_id s = u_id u, s_session_id s = sessionId, s_expires_at s > now] of
           [] \<Rightarrow> None
         | r # _ \<Rightarrow> Some r))"

text \<open>\<open>deleteSession\<close>: \<open>DELETE FROM api_sessions WHERE session_id = $1\<close>.\<close>

definition deleteSession :: "database \<Rightarrow> bool \<Rightarrow> string \<Rightarrow> database option" where
  "deleteSession db up sessionId =
     (if \<not> up then None
      else Some (db\<lparr>api_sessions := filter (\<lambda>s. s_session_id s \<noteq> sessionId) (api_sessions db)\<rparr>))"

subsection \<open>JSON web tokens\<close>

text \<open>
  The library \<open>jsonwebtoken\<close> is taken as an ideal signature scheme: a token is either a
  string that does not decode, or claims together with the secret that signed them, and
  a signature verifies exactly under the secret that made it. Claims carry \<open>iat\<close> and
  \<open>exp\<close> in seconds. The access token has a \<open>username\<close> claim (possibly \<open>null\<close>), the
  refresh token has none; nothing else tells them apart. \<open>JWT_SECRET\<close> is taken to be
  set, as the source asserts.
\<close>

record claims =
  c_userId :: nat
  c_walletAddress :: string
  c_username :: "string option option"
  c_iat :: nat
  c_exp :: nat

datatype token = Undecodable string | Signed string claims



text \<open>
  \<open>jwt.sign(payload, secret, {expiresIn})\<close> with the payload's fields spelled out;
  \<open>now\<close> is the clock the library reads for \<open>iat\<close>.
\<close>

definition jwt_sign ::
  "nat \<Rightarrow> nat \<Rightarrow> string \<Rightarrow> string option option \<Rightarrow> string \<Rightarrow> nat \<Rightarrow> token" where
  "jwt_sign now userId walletAddress username secret expiresIn =
     Signed secret \<lparr>c_userId = userId, c_walletAddress = walletAddress, c_username = username,
                    c_iat = now div 1000, c_exp = now div 1000 + expiresIn\<rparr>"


text \<open>The two \<open>jwt.sign\<close> calls of connect; refresh repeats the first.\<close>

definition sign_accessToken :: "string \<Rightarrow> nat \<Rightarrow> user \<Rightarrow> token" where
  "sign_accessToken secret now u =
     jwt_sign now (u_id u) (u_wallet_address u) (Some (u_username u)) secret 3600"

definition sign_refreshToken :: "string \<Rightarrow> nat \<Rightarrow> user \<Rightarrow> token" where
  "sign_refreshToken secret now u =
     jwt_sign now (u_id u) (u_wallet_address u) None secret (7 * 24 * 3600)"

subsection \<open>The routes\<close>

text \<open>
  A handler answers either with \<open>res.json({success: true, ...})\<close> or with a status and a
  machine-readable code. The bodies modelled are those of the handlers, reached once the
  validation middleware has let the request through.
\<close>

datatype 'a response = Success 'a | Failure nat string

record connect_body =
  b_walletAddress :: string
  b_signature :: string
  b_message :: string
  b_username :: "string option"
  b_email :: "string option"

text \<open>
  What connect reads from outside, in the order it reads it: the clock of the freshness
  check; the upsert (does it go through, and the database's clock); the clocks of the two
  \<open>jwt.sign\<close>; the clock and the draw of \<open>generateSessionId\<close>; the clock of
  \<open>expiresAt\<close>; the insert; the cache write and Redis's clock.
\<close>

record connect_env =
  now_check :: nat
  upsert_up :: bool
  now_upsert :: nat
  now_access :: nat
  now_refresh :: nat
  now_sid :: nat
  rnd_sid :: string
  now_expiry :: nat
  insert_up :: bool
  now_insert :: nat
  cache_up :: bool
  now_cache :: nat

record user_view =
  v_id :: nat
  v_walletAddress :: string
  v_username :: "string option"
  v_email :: "string option"
  v_preferences :: string

record connect_ok =
  r_user :: user_view
  r_accessToken :: token
  r_refreshToken :: token
  r_sessionId :: string

text \<open>
  \<open>router.post("/connect")\<close>. \<open>verifyMessage\<close> is \<open>ethers.verifyMessage\<close>: the address
  recovered from the signature over the message, \<open>None\<close> when it throws because the
  signature does not parse or no key can be recovered.
\<close>

definition connect ::
  "(string \<Rightarrow> string \<Rightarrow> string option) \<Rightarrow> string \<Rightarrow> connect_env \<Rightarrow> connect_body
     \<Rightarrow> database \<Rightarrow> redis \<Rightarrow> connect_ok response \<times> database \<times> redis" where
  "connect verifyMessage secret env body db cache =
     (case verifyMessage (b_message body) (b_signature body) of
        None \<Rightarrow> (Failure 500 ''INTERNAL_ERROR'', db, cache)
      | Some recoveredAddress \<Rightarrow>
          if toLowerCase recoveredAddress \<noteq> toLowerCase (b_walletAddress body)
          then (Failure 401 ''INVALID_SIGNATURE'', db, cache)
          else if message_expired (now_check env) (b_message body)
          then (Failure 401 ''MESSAGE_EXPIRED'', db, cache)
          else
            (case createUser db (upsert_up env) (now_upsert env)
                    (b_walletAddress body) (b_username body) (b_email body) of
               None \<Rightarrow> (Failure 500 ''INTERNAL_ERROR'', db, cache)
             | Some (u, db1) \<Rightarrow>
                 (let accessToken = sign_accessToken secret (now_access env) u;
                      refreshToken = sign_refreshToken secret (now_refresh env) u;
                      sessionId = generateSessionId (now_sid env) (rnd_sid env);
                      expiresAt = now_expiry env + 7 * 24 * 60 * 60 * 1000
                  in case createSession db1 (insert_up env) (now_insert env) sessionId
                            (u_id u) (u_wallet_address u) expiresAt of
                       None \<Rightarrow> (Failure 500 ''INTERNAL_ERROR'', db1, cache)
                     | Some (row, db2) \<Rightarrow>
                         (let cache1 = snd (cacheUserSession cache (cache_up env) (now_cache env)
                                 sessionId
                                 \<lparr>cs_userId = u_id u, cs_walletAddress = u_wallet_address u,
                                  cs_username = u_username u\<rparr>
                                 (7 * 24 * 60 * 60))
                          in (Success
                                \<lparr>r_user = \<lparr>v_id = u_id u, v_walletAddress = u_wallet_address u,
                                           v_username = u_username u, v_email = u_email u,
                                           v_preferences = u_preferences u\<rparr>,
                                 r_accessToken = accessToken, r_refreshToken = refreshToken,
                                 r_sessionId = sessionId\<rparr>,
                              db2, cache1)))))"



record disconnect_env =
  delete_up :: bool
  del_up :: bool

text \<open>
  \<open>router.post("/disconnect")\<close>. The header \<open>x-session-id\<close> may be missing; a missing or
  empty one is falsy and nothing is deleted.
\<close>

definition disconnect ::
  "disconnect_env \<Rightarrow> string option \<Rightarrow> database \<Rightarrow> redis \<Rightarrow> unit response \<times> database \<times> redis" where
  "disconnect env header db cache =
     (case header of
        None \<Rightarrow> (Success (), db, cache)
      | Some sessionId \<Rightarrow>
          if sessionId = [] then (Success (), db, cache)
          else
            (case deleteSession db (delete_up env) sessionId of
               None \<Rightarrow> (Failure 500 ''INTERNAL_ERROR'', db, cache)
             | Some db1 \<Rightarrow>
                 (Success (), db1, snd (invalidateUserSession cache (del_up env) sessionId))))"





subsection \<open>A concrete scenario\<close>

text \<open>
  The values used by the closed examples below. \<open>ex_verifyMessage\<close> stands in for
  \<open>ethers.verifyMessage\<close> there: it takes a signature of 65 bytes in hexadecimal and
  recovers the address spelled by its first 20 bytes, and throws on every other string.
  The general theorems hold for every recovery function.
\<close>

definition ex_verifyMessage :: "string \<Rightarrow> string \<Rightarrow> string option" where
  "ex_verifyMessage message signature =
     (if length signature = 132 \<and> take 2 signature = ''0x'' \<and> list_all is_hex (drop 2 signature)
      then Some (''0x'' @ take 40 (drop 2 signature))
      else None)"

definition ex_wallet :: string where
  "ex_wallet = ''0xABCDEF0000000000000000000000000000000001''"

definition ex_signature :: string where
  "ex_signature = ''0xabcdef0000000000000000000000000000000001'' @ replicate 90 (CHR ''0'')"

definition ex_other_signature :: string where
  "ex_other_signature = ''0x1234567890123456789012345678901234567890'' @ replicate 90 (CHR ''0'')"

definition ex_message :: string where
  "ex_message = ''Sign this message to connect to PsyFi:'' @ [CHR 0x0A, CHR 0x0A]
     @ ''Wallet: 0xABCDEF0000000000000000000000000000000001'' @ [CHR 0x0A]
     @ ''Nonce: 4fzyo82mvyr'' @ [CHR 0x0A]
     @ ''Timestamp: 1700000000000''"

definition ex_secret :: string where
  "ex_secret = ''server-secret''"

definition ex_user :: user where
  "ex_user = \<lparr>u_id = 1, u_wallet_address = ex_wallet, u_username = Some ''alice_defi'',
              u_email = Some ''alice@example.com'', u_preferences = ''{}'',
              u_created_at = 1600000000000, u_updated_at = 1600000000000\<rparr>"

definition ex_db :: database where
  "ex_db = \<lparr>users = [ex_user], users_id_seq = 2, api_sessions = []\<rparr>"

definition ex_cache :: redis where
  "ex_cache = (\<lambda>k. None)"

definition ex_body :: connect_body where
  "ex_body = \<lparr>b_walletAddress = ex_wallet, b_signature = ex_signature, b_message = ex_message,
              b_username = None, b_email = None\<rparr>"

text \<open>A connect one second after the challenge; Redis executes the write 5 ms after
  \<open>expiresAt\<close> was computed.\<close>

definition ex_env :: connect_env where
  "ex_env = \<lparr>now_check = 1700000001000, upsert_up = True, now_upsert = 1700000001001,
             now_access = 1700000001002, now_refresh = 1700000001002,
             now_sid = 1700000001003, rnd_sid = ''0.4fzyo82mvyr'',
             now_expiry = 1700000001003, insert_up = True, now_insert = 1700000001005,
             cache_up = True, now_cache = 1700000001008\<rparr>"

definition ex_session_id :: string where
  "ex_session_id = ''sess_1700000001003_4fzyo82mv''"

text \<open>What that connect answers and leaves in the two stores.\<close>

definition ex_connect_ok :: connect_ok where
  "ex_connect_ok =
     \<lparr>r_user = \<lparr>v_id = 1, v_walletAddress = ex_wallet, v_username = Some ''alice_defi'',
                v_email = Some ''alice@example.com'', v_preferences = ''{}''\<rparr>,
      r_accessToken = Signed ex_secret
        \<lparr>c_userId = 1, c_walletAddress = ex_wallet, c_username = Some (Some ''alice_defi''),
         c_iat = 1700000001, c_exp = 1700003601\<rparr>,
      r_refreshToken = Signed ex_secret
        \<lparr>c_userId = 1, c_walletAddress = ex_wallet, c_username = None,
         c_iat = 1700000001, c_exp = 1700604801\<rparr>,
      r_sessionId = ex_session_id\<rparr>"

definition ex_db_after :: database where
  "ex_db_after =
     \<lparr>users = [ex_user\<lparr>u_updated_at := 1700000001001\<rparr>], users_id_seq = 3,
      api_sessions = [\<lparr>s_session_id = ex_session_id, s_user_id = 1,
                       s_wallet_address = ex_wallet, s_expires_at = 1700604801003,
                       s_created_at = 1700000001005\<rparr>]\<rparr>"

definition ex_cache_after :: redis where
  "ex_cache_after =
     ex_cache(session_key ex_session_id \<mapsto>
       (Json \<lparr>cs_userId = 1, cs_walletAddress = ex_wallet, cs_username = Some ''alice_defi''\<rparr>,
        Some 1700604801008))"


text \<open>The same connect ten minutes after the challenge.\<close>

definition ex_late_env :: connect_env where
  "ex_late_env = ex_env\<lparr>now_check := 1700000600000\<rparr>"

text \<open>The cache after a challenge was issued to the wallet.\<close>

definition ex_cache_with_nonce :: redis where
  "ex_cache_with_nonce = ex_cache(nonce_key ex_wallet \<mapsto> (Raw ''4fzyo82mvyr'', Some 1700000300002))"

definition ex_disconnect_env :: disconnect_env where
  "ex_disconnect_env = \<lparr>delete_up = True, del_up = True\<rparr>"



text \<open>A disconnect while Redis does not answer, and one while the database does not.\<close>

definition ex_disconnect_env_cache_down :: disconnect_env where
  "ex_disconnect_env_cache_down = \<lparr>delete_up = True, del_up = False\<rparr>"

definition ex_disconnect_env_db_down :: disconnect_env where
  "ex_disconnect_env_db_down = \<lparr>delete_up = False, del_up = True\<rparr>"

definition is_success :: "'a response \<Rightarrow> bool" where
  "is_success r = (case r of Success _ \<Rightarrow> True | Failure _ _ \<Rightarrow> False)"

section \<open>Properties\<close>

subsection \<open>Evaluating the scenario\<close>

lemma string_of_nat_small: "n < 10 \<Longrightarrow> string_of_nat n = [digit_char n]"
  by (simp add: string_of_nat.simps)

lemma string_of_nat_big:
  "10 \<le> n \<Longrightarrow> string_of_nat n = string_of_nat (n div 10) @ [digit_char (n mod 10)]"
  by (subst string_of_nat.simps) simp

lemma ex_message_timestamp: "extractTimestampFromMessage ex_message = 1700000000000"
  by (simp add: extractTimestampFromMessage_def ex_message_def parseInt10_def digit_val_def is_digit_def)

lemma ex_signature_recovers:
  "ex_verifyMessage m ex_signature = Some ''0xabcdef0000000000000000000000000000000001''"
  by (simp add: ex_verifyMessage_def ex_signature_def is_hex_def list_all_iff)

lemma ex_other_signature_recovers:
  "ex_verifyMessage m ex_other_signature = Some ''0x1234567890123456789012345678901234567890''"
  by (simp add: ex_verifyMessage_def ex_other_signature_def is_hex_def list_all_iff)

lemma ex_wallet_lower: "toLowerCase ex_wallet = ''0xabcdef0000000000000000000000000000000001''"
  by (simp add: toLowerCase_def lower_char_def ex_wallet_def)

lemma lower_lower: "toLowerCase ''0xabcdef0000000000000000000000000000000001'' = ''0xabcdef0000000000000000000000000000000001''"
  by (simp add: toLowerCase_def lower_char_def)

lemma ex_session_id_eq: "generateSessionId 1700000001003 ''0.4fzyo82mvyr'' = ex_session_id"
  by (simp add: generateSessionId_def substr_def string_of_nat_small string_of_nat_big
      digit_char_def ex_session_id_def)


lemma ex_connect:
  "connect ex_verifyMessage ex_secret ex_env ex_body ex_db ex_cache
     = (Success ex_connect_ok, ex_db_after, ex_cache_after)"
  by (simp add: connect_def ex_env_def ex_body_def ex_signature_recovers ex_wallet_lower
      lower_lower message_expired_def ex_message_timestamp fiveMinutes_def createUser_def
      ex_db_def ex_user_def fits_def coalesce_def ex_session_id_eq createSession_def
      sign_accessToken_def sign_refreshToken_def jwt_sign_def cacheUserSession_def
      redis_set_def Let_def ex_connect_ok_def ex_db_after_def ex_cache_after_def)
     (simp add: ex_wallet_def ex_session_id_def)

subsection \<open>Freshness of the signed message\<close>




subsection \<open>The nonce\<close>




subsection \<open>The signature\<close>

lemma ex_short_signature: "ex_verifyMessage m ''0x1234'' = None"
  by (simp add: ex_verifyMessage_def)

lemma ex_text_signature: "ex_verifyMessage m ''not-a-signature'' = None"
  by (simp add: ex_verifyMessage_def)

lemma ex_late: "message_expired (now_check ex_late_env) ex_message"
  by (simp add: ex_late_env_def ex_env_def message_expired_def ex_message_timestamp fiveMinutes_def)

lemma ex_other_lower:
  "toLowerCase ''0x1234567890123456789012345678901234567890'' \<noteq> toLowerCase ex_wallet"
  by (simp add: toLowerCase_def lower_char_def ex_wallet_def)

text \<open>
  Claim C3, as the code has it. When \<open>ethers.verifyMessage\<close> throws because the signature
  cannot be parsed or recovered, the \<open>catch\<close> block of connect answers with status 500
  and the generic code \<open>INTERNAL_ERROR\<close>, and neither store is written. The answer is
  never \<open>INVALID_SIGNATURE\<close>; the router has no code for a malformed signature.
\<close>

theorem connect_unrecoverable_signature:
  assumes "verifyMessage (b_message body) (b_signature body) = None"
  shows "connect verifyMessage secret env body db cache = (Failure 500 ''INTERNAL_ERROR'', db, cache)
       \<and> fst (connect verifyMessage secret env body db cache) \<noteq> Failure 401 ''INVALID_SIGNATURE''"
  using assms by (simp add: connect_def)

theorem connect_unrecoverable_signature_witness:
  "ex_verifyMessage (b_message (ex_body\<lparr>b_signature := ''not-a-signature''\<rparr>))
       (b_signature (ex_body\<lparr>b_signature := ''not-a-signature''\<rparr>)) = None
   \<and> connect ex_verifyMessage ex_secret ex_env (ex_body\<lparr>b_signature := ''not-a-signature''\<rparr>)
        ex_db ex_cache = (Failure 500 ''INTERNAL_ERROR'', ex_db, ex_cache)"
proof -
  have h: "ex_verifyMessage (b_message (ex_body\<lparr>b_signature := ''not-a-signature''\<rparr>))
       (b_signature (ex_body\<lparr>b_signature := ''not-a-signature''\<rparr>)) = None"
    by (simp add: ex_text_signature)
  from h connect_unrecoverable_signature
         [of ex_verifyMessage "ex_body\<lparr>b_signature := ''not-a-signature''\<rparr>"
             ex_secret ex_env ex_db ex_cache, OF h]
  show ?thesis by blast
qed

text \<open>
  Claim C3 as stated rules out the generic internal error. A signature of two bytes cannot
  be recovered, and connect answers \<open>INTERNAL_ERROR\<close> to it.
\<close>

theorem malformed_signature_counterexample:
  "connect ex_verifyMessage ex_secret ex_env (ex_body\<lparr>b_signature := ''0x1234''\<rparr>) ex_db ex_cache
     = (Failure 500 ''INTERNAL_ERROR'', ex_db, ex_cache)"
  by (simp add: connect_def ex_short_signature)

text \<open>
  Claim C4, as the code has it. Connect verifies the signature first and checks freshness
  second. For a message whose timestamp is older than 5 minutes the answer is
  \<open>MESSAGE_EXPIRED\<close> when the signature recovers the claimed address,
  \<open>INVALID_SIGNATURE\<close> when it recovers another address, and \<open>INTERNAL_ERROR\<close> when
  nothing can be recovered.
\<close>

theorem connect_signature_before_freshness:
  assumes "message_expired (now_check env) (b_message body)"
  shows "(\<forall>r. verifyMessage (b_message body) (b_signature body) = Some r
              \<and> toLowerCase r = toLowerCase (b_walletAddress body)
            \<longrightarrow> connect verifyMessage secret env body db cache
                  = (Failure 401 ''MESSAGE_EXPIRED'', db, cache))
       \<and> (\<forall>r. verifyMessage (b_message body) (b_signature body) = Some r
              \<and> toLowerCase r \<noteq> toLowerCase (b_walletAddress body)
            \<longrightarrow> connect verifyMessage secret env body db cache
                  = (Failure 401 ''INVALID_SIGNATURE'', db, cache))
       \<and> (verifyMessage (b_message body) (b_signature body) = None
            \<longrightarrow> connect verifyMessage secret env body db cache
                  = (Failure 500 ''INTERNAL_ERROR'', db, cache))"
  using assms by (simp add: connect_def)

theorem connect_signature_before_freshness_witness:
  "message_expired (now_check ex_late_env) (b_message ex_body)
   \<and> connect ex_verifyMessage ex_secret ex_late_env ex_body ex_db ex_cache
       = (Failure 401 ''MESSAGE_EXPIRED'', ex_db, ex_cache)"
proof -
  have h: "message_expired (now_check ex_late_env) (b_message ex_body)"
    using ex_late by (simp add: ex_body_def)
  have rec: "ex_verifyMessage (b_message ex_body) (b_signature ex_body)
      = Some ''0xabcdef0000000000000000000000000000000001''"
    by (simp add: ex_body_def ex_signature_recovers)
  have low: "toLowerCase ''0xabcdef0000000000000000000000000000000001''
      = toLowerCase (b_walletAddress ex_body)"
    by (simp add: ex_body_def ex_wallet_lower lower_lower)
  from connect_signature_before_freshness
         [of ex_late_env ex_body ex_verifyMessage ex_secret ex_db ex_cache, OF h] rec low h
  show ?thesis by blast
qed

text \<open>
  Claim C4 as stated puts freshness first. A message ten minutes old, signed by another
  wallet than the claimed one, is answered \<open>INVALID_SIGNATURE\<close>, not
  \<open>MESSAGE_EXPIRED\<close>.
\<close>

theorem stale_bad_signature_counterexample:
  "message_expired (now_check ex_late_env) (b_message (ex_body\<lparr>b_signature := ex_other_signature\<rparr>))
   \<and> connect ex_verifyMessage ex_secret ex_late_env (ex_body\<lparr>b_signature := ex_other_signature\<rparr>)
        ex_db ex_cache = (Failure 401 ''INVALID_SIGNATURE'', ex_db, ex_cache)"
  using ex_late ex_other_lower
  by (simp add: connect_def ex_body_def ex_other_signature_recovers)

subsection \<open>Connect and the cached nonce\<close>

lemma connect_response_any_cache:
  "fst (connect verifyMessage secret env body db cache1)
     = fst (connect verifyMessage secret env body db cache2)"
  by (simp add: connect_def Let_def split: option.splits prod.splits)

lemma connect_db_any_cache:
  "fst (snd (connect verifyMessage secret env body db cache1))
     = fst (snd (connect verifyMessage secret env body db cache2))"
  by (simp add: connect_def Let_def split: option.splits prod.splits)

lemma connect_cache_pointwise:
  "cache1 k = cache2 k \<Longrightarrow>
   snd (snd (connect verifyMessage secret env body db cache1)) k
     = snd (snd (connect verifyMessage secret env body db cache2)) k"
  by (simp add: connect_def Let_def cacheUserSession_def redis_set_def
      split: option.splits prod.splits)

lemma connect_succeeds:
  assumes "verifyMessage (b_message body) (b_signature body) = Some r"
    and "toLowerCase r = toLowerCase (b_walletAddress body)"
    and "\<not> message_expired (now_check env) (b_message body)"
    and "createUser db (upsert_up env) (now_upsert env) (b_walletAddress body)
           (b_username body) (b_email body) = Some (u, db1)"
    and "createSession db1 (insert_up env) (now_insert env)
           (generateSessionId (now_sid env) (rnd_sid env)) (u_id u) (u_wallet_address u)
           (now_expiry env + 7 * 24 * 60 * 60 * 1000) = Some (row, db2)"
  shows "is_success (fst (connect verifyMessage secret env body db cache))
       \<and> fst (snd (connect verifyMessage secret env body db cache)) = db2"
  using assms by (simp add: connect_def Let_def is_success_def)

lemma ex_createUser:
  "createUser ex_db True 1700000001001 ex_wallet None None
     = Some (ex_user\<lparr>u_updated_at := 1700000001001\<rparr>,
             \<lparr>users = [ex_user\<lparr>u_updated_at := 1700000001001\<rparr>], users_id_seq = 3,
              api_sessions = []\<rparr>)"
  by (simp add: createUser_def ex_db_def ex_user_def ex_wallet_def fits_def coalesce_def Let_def)

lemma ex_createSession:
  "createSession \<lparr>users = [ex_user\<lparr>u_updated_at := 1700000001001\<rparr>], users_id_seq = 3,
              api_sessions = []\<rparr> True 1700000001005 ex_session_id 1 ex_wallet 1700604801003
     = Some (\<lparr>s_session_id = ex_session_id, s_user_id = 1,
                       s_wallet_address = ex_wallet, s_expires_at = 1700604801003,
                       s_created_at = 1700000001005\<rparr>, ex_db_after)"
  by (simp add: createSession_def ex_db_after_def ex_user_def ex_wallet_def ex_session_id_def Let_def)

text \<open>
  Claim C2. Connect never reads the nonce that the challenge issuer cached. For two caches
  that agree on every key but \<open>nonce:{address}\<close>, connect gives the same response, leaves
  the same database, and leaves caches that still agree on every other key. With no nonce
  cached at all, a message with a fresh timestamp and a signature that recovers the
  claimed address is accepted, as soon as the upsert and the insert of the session go
  through.
\<close>

theorem connect_independent_of_nonce:
  assumes "\<forall>k. k \<noteq> nonce_key (b_walletAddress body) \<longrightarrow> cache1 k = cache2 k"
  shows "fst (connect verifyMessage secret env body db cache1)
           = fst (connect verifyMessage secret env body db cache2)
       \<and> fst (snd (connect verifyMessage secret env body db cache1))
           = fst (snd (connect verifyMessage secret env body db cache2))
       \<and> (\<forall>k. k \<noteq> nonce_key (b_walletAddress body)
            \<longrightarrow> snd (snd (connect verifyMessage secret env body db cache1)) k
                = snd (snd (connect verifyMessage secret env body db cache2)) k)
       \<and> (cache1 (nonce_key (b_walletAddress body)) = None
           \<and> verifyMessage (b_message body) (b_signature body) = Some r
           \<and> toLowerCase r = toLowerCase (b_walletAddress body)
           \<and> \<not> message_expired (now_check env) (b_message body)
           \<and> createUser db (upsert_up env) (now_upsert env) (b_walletAddress body)
                (b_username body) (b_email body) = Some (u, db1)
           \<and> createSession db1 (insert_up env) (now_insert env)
                (generateSessionId (now_sid env) (rnd_sid env)) (u_id u) (u_wallet_address u)
                (now_expiry env + 7 * 24 * 60 * 60 * 1000) = Some (row, db2)
          \<longrightarrow> is_success (fst (connect verifyMessage secret env body db cache1)))"
proof (intro conjI allI impI)
  show "fst (connect verifyMessage secret env body db cache1)
           = fst (connect verifyMessage secret env body db cache2)"
    by (rule connect_response_any_cache)
  show "fst (snd (connect verifyMessage secret env body db cache1))
           = fst (snd (connect verifyMessage secret env body db cache2))"
    by (rule connect_db_any_cache)
next
  fix k
  assume "k \<noteq> nonce_key (b_walletAddress body)"
  with assms have "cache1 k = cache2 k" by blast
  then show "snd (snd (connect verifyMessage secret env body db cache1)) k
                = snd (snd (connect verifyMessage secret env body db cache2)) k"
    by (rule connect_cache_pointwise)
next
  assume "cache1 (nonce_key (b_walletAddress body)) = None
           \<and> verifyMessage (b_message body) (b_signature body) = Some r
           \<and> toLowerCase r = toLowerCase (b_walletAddress body)
           \<and> \<not> message_expired (now_check env) (b_message body)
           \<and> createUser db (upsert_up env) (now_upsert env) (b_walletAddress body)
                (b_username body) (b_email body) = Some (u, db1)
           \<and> createSession db1 (insert_up env) (now_insert env)
                (generateSessionId (now_sid env) (rnd_sid env)) (u_id u) (u_wallet_address u)
                (now_expiry env + 7 * 24 * 60 * 60 * 1000) = Some (row, db2)"
  then show "is_success (fst (connect verifyMessage secret env body db cache1))"
    using connect_succeeds [of verifyMessage body r env db u db1 row db2 secret cache1]
    by blast
qed

theorem connect_independent_of_nonce_witness:
  "ex_cache (nonce_key (b_walletAddress ex_body)) = None
   \<and> ex_cache_with_nonce (nonce_key (b_walletAddress ex_body)) \<noteq> None
   \<and> is_success (fst (connect ex_verifyMessage ex_secret ex_env ex_body ex_db ex_cache))
   \<and> fst (connect ex_verifyMessage ex_secret ex_env ex_body ex_db ex_cache_with_nonce)
       = Success ex_connect_ok"
proof -
  have agree: "\<forall>k. k \<noteq> nonce_key (b_walletAddress ex_body) \<longrightarrow> ex_cache k = ex_cache_with_nonce k"
    by (simp add: ex_cache_with_nonce_def ex_body_def)
  have absent: "ex_cache (nonce_key (b_walletAddress ex_body)) = None"
    by (simp add: ex_cache_def)
  have present: "ex_cache_with_nonce (nonce_key (b_walletAddress ex_body)) \<noteq> None"
    by (simp add: ex_cache_with_nonce_def ex_body_def)
  have rec: "ex_verifyMessage (b_message ex_body) (b_signature ex_body)
      = Some ''0xabcdef0000000000000000000000000000000001''"
    by (simp add: ex_body_def ex_signature_recovers)
  have low: "toLowerCase ''0xabcdef0000000000000000000000000000000001''
      = toLowerCase (b_walletAddress ex_body)"
    by (simp add: ex_body_def ex_wallet_lower lower_lower)
  have fresh: "\<not> message_expired (now_check ex_env) (b_message ex_body)"
    by (simp add: message_expired_def ex_env_def ex_body_def ex_message_timestamp fiveMinutes_def)
  have upsert: "createUser ex_db (upsert_up ex_env) (now_upsert ex_env) (b_walletAddress ex_body)
       (b_username ex_body) (b_email ex_body)
     = Some (ex_user\<lparr>u_updated_at := 1700000001001\<rparr>,
             \<lparr>users = [ex_user\<lparr>u_updated_at := 1700000001001\<rparr>], users_id_seq = 3,
              api_sessions = []\<rparr>)"
    by (simp add: ex_env_def ex_body_def ex_createUser)
  have insert: "createSession \<lparr>users = [ex_user\<lparr>u_updated_at := 1700000001001\<rparr>],
          users_id_seq = 3, api_sessions = []\<rparr> (insert_up ex_env) (now_insert ex_env)
       (generateSessionId (now_sid ex_env) (rnd_sid ex_env))
       (u_id (ex_user\<lparr>u_updated_at := 1700000001001\<rparr>))
       (u_wallet_address (ex_user\<lparr>u_updated_at := 1700000001001\<rparr>))
       (now_expiry ex_env + 7 * 24 * 60 * 60 * 1000)
     = Some (\<lparr>s_session_id = ex_session_id, s_user_id = 1,
                       s_wallet_address = ex_wallet, s_expires_at = 1700604801003,
                       s_created_at = 1700000001005\<rparr>, ex_db_after)"
    using ex_createSession by (simp add: ex_env_def ex_session_id_eq ex_user_def)
  note inst = connect_independent_of_nonce [of ex_body ex_cache ex_cache_with_nonce
      ex_verifyMessage ex_secret ex_env ex_db, OF agree]
  from inst absent rec low fresh upsert insert
  have ok: "is_success (fst (connect ex_verifyMessage ex_secret ex_env ex_body ex_db ex_cache))"
    by blast
  from inst ex_connect
  have same: "fst (connect ex_verifyMessage ex_secret ex_env ex_body ex_db ex_cache_with_nonce)
       = Success ex_connect_ok"
    by simp
  from absent present ok same show ?thesis by blast
qed

subsection \<open>Creating the session\<close>

lemma connect_cache_changes:
  assumes "snd (snd (connect verifyMessage secret env body db cache)) k \<noteq> cache k"
  shows "k = session_key (generateSessionId (now_sid env) (rnd_sid env))
       \<and> generateSessionId (now_sid env) (rnd_sid env)
           \<in> set (map s_session_id
                (api_sessions (fst (snd (connect verifyMessage secret env body db cache)))))"
  using assms
  by (auto simp: connect_def Let_def cacheUserSession_def redis_set_def createSession_def
      split: option.splits prod.splits if_splits)

lemma connect_success_iff:
  assumes "verifyMessage (b_message body) (b_signature body) = Some r"
    and "toLowerCase r = toLowerCase (b_walletAddress body)"
    and "\<not> message_expired (now_check env) (b_message body)"
    and "createUser db (upsert_up env) (now_upsert env) (b_walletAddress body)
           (b_username body) (b_email body) = Some (u, db1)"
  shows "is_success (fst (connect verifyMessage secret env body db cache))
     \<longleftrightarrow> createSession db1 (insert_up env) (now_insert env)
           (generateSessionId (now_sid env) (rnd_sid env)) (u_id u) (u_wallet_address u)
           (now_expiry env + 7 * 24 * 60 * 60 * 1000) \<noteq> None"
  using assms by (auto simp: connect_def Let_def is_success_def split: option.splits)

lemma connect_cache_failure_silent:
  "fst (connect verifyMessage secret (env\<lparr>cache_up := b\<rparr>) body db cache)
     = fst (connect verifyMessage secret env body db cache)
   \<and> fst (snd (connect verifyMessage secret (env\<lparr>cache_up := b\<rparr>) body db cache))
     = fst (snd (connect verifyMessage secret env body db cache))"
  by (simp add: connect_def Let_def split: option.splits prod.splits)

lemma ex_cache_after_differs:
  "ex_cache_after (session_key ex_session_id) \<noteq> ex_cache (session_key ex_session_id)"
  by (simp add: ex_cache_after_def ex_cache_def)

lemma connect_success_row:
  "is_success (fst (connect verifyMessage secret env body db cache))
     \<Longrightarrow> generateSessionId (now_sid env) (rnd_sid env)
           \<in> set (map s_session_id
                (api_sessions (fst (snd (connect verifyMessage secret env body db cache)))))"
  by (auto simp: connect_def Let_def is_success_def createSession_def
      split: option.splits prod.splits if_splits)

lemma connect_success_cache:
  "is_success (fst (connect verifyMessage secret env body db cache)) \<Longrightarrow> cache_up env
     \<Longrightarrow> snd (snd (connect verifyMessage secret env body db cache))
           (session_key (generateSessionId (now_sid env) (rnd_sid env))) \<noteq> None"
  by (auto simp: connect_def Let_def is_success_def cacheUserSession_def redis_set_def
      split: option.splits prod.splits if_splits)

lemma connect_failure_cache:
  "\<not> is_success (fst (connect verifyMessage secret env body db cache))
     \<Longrightarrow> snd (snd (connect verifyMessage secret env body db cache)) = cache"
  by (auto simp: connect_def Let_def is_success_def split: option.splits prod.splits if_splits)

text \<open>
  Claim C6. Connect inserts the durable row before it writes the cache entry. Once the
  signature and the freshness checks have passed and the user is upserted, connect
  succeeds if and only if the insert of the session succeeds. A cache write that fails
  changes neither the response nor the database. In every execution, a cache key whose
  content connect has changed is the key of the new session, and the row of that session
  is in the database connect leaves. A connect that succeeds leaves the row of the new
  session in the database, and the cache entry too when Redis answers; a connect that
  fails leaves the cache as it was.
\<close>

theorem session_durable_before_cache:
  "(verifyMessage (b_message body) (b_signature body) = Some r
      \<and> toLowerCase r = toLowerCase (b_walletAddress body)
      \<and> \<not> message_expired (now_check env) (b_message body)
      \<and> createUser db (upsert_up env) (now_upsert env) (b_walletAddress body)
           (b_username body) (b_email body) = Some (u, db1)
     \<longrightarrow> (is_success (fst (connect verifyMessage secret env body db cache))
           \<longleftrightarrow> createSession db1 (insert_up env) (now_insert env)
                 (generateSessionId (now_sid env) (rnd_sid env)) (u_id u) (u_wallet_address u)
                 (now_expiry env + 7 * 24 * 60 * 60 * 1000) \<noteq> None))
   \<and> fst (connect verifyMessage secret (env\<lparr>cache_up := False\<rparr>) body db cache)
       = fst (connect verifyMessage secret env body db cache)
   \<and> fst (snd (connect verifyMessage secret (env\<lparr>cache_up := False\<rparr>) body db cache))
       = fst (snd (connect verifyMessage secret env body db cache))
   \<and> (\<forall>k. snd (snd (connect verifyMessage secret env body db cache)) k \<noteq> cache k
         \<longrightarrow> k = session_key (generateSessionId (now_sid env) (rnd_sid env))
             \<and> generateSessionId (now_sid env) (rnd_sid env)
                 \<in> set (map s_session_id
                      (api_sessions (fst (snd (connect verifyMessage secret env body db cache))))))
   \<and> (is_success (fst (connect verifyMessage secret env body db cache))
        \<longrightarrow> generateSessionId (now_sid env) (rnd_sid env)
              \<in> set (map s_session_id
                   (api_sessions (fst (snd (connect verifyMessage secret env body db cache))))))
   \<and> (is_success (fst (connect verifyMessage secret env body db cache)) \<and> cache_up env
        \<longrightarrow> snd (snd (connect verifyMessage secret env body db cache))
              (session_key (generateSessionId (now_sid env) (rnd_sid env))) \<noteq> None)
   \<and> (\<not> is_success (fst (connect verifyMessage secret env body db cache))
        \<longrightarrow> snd (snd (connect verifyMessage secret env body db cache)) = cache)"
proof (intro conjI allI impI)
  assume "verifyMessage (b_message body) (b_signature body) = Some r
      \<and> toLowerCase r = toLowerCase (b_walletAddress body)
      \<and> \<not> message_expired (now_check env) (b_message body)
      \<and> createUser db (upsert_up env) (now_upsert env) (b_walletAddress body)
           (b_username body) (b_email body) = Some (u, db1)"
  then show "is_success (fst (connect verifyMessage secret env body db cache))
           \<longleftrightarrow> createSession db1 (insert_up env) (now_insert env)
                 (generateSessionId (now_sid env) (rnd_sid env)) (u_id u) (u_wallet_address u)
                 (now_expiry env + 7 * 24 * 60 * 60 * 1000) \<noteq> None"
    using connect_success_iff [of verifyMessage body r env db u db1 secret cache] by blast
next
  show "fst (connect verifyMessage secret (env\<lparr>cache_up := False\<rparr>) body db cache)
       = fst (connect verifyMessage secret env body db cache)"
    using connect_cache_failure_silent by blast
  show "fst (snd (connect verifyMessage secret (env\<lparr>cache_up := False\<rparr>) body db cache))
       = fst (snd (connect verifyMessage secret env body db cache))"
    using connect_cache_failure_silent by blast
next
  fix k
  assume a: "snd (snd (connect verifyMessage secret env body db cache)) k \<noteq> cache k"
  from connect_cache_changes [OF a]
  show "k = session_key (generateSessionId (now_sid env) (rnd_sid env))" by blast
  from connect_cache_changes [OF a]
  show "generateSessionId (now_sid env) (rnd_sid env)
                 \<in> set (map s_session_id
                      (api_sessions (fst (snd (connect verifyMessage secret env body db cache)))))"
    by blast
next
  assume "is_success (fst (connect verifyMessage secret env body db cache))"
  then show "generateSessionId (now_sid env) (rnd_sid env)
              \<in> set (map s_session_id
                   (api_sessions (fst (snd (connect verifyMessage secret env body db cache)))))"
    by (rule connect_success_row)
next
  assume "is_success (fst (connect verifyMessage secret env body db cache)) \<and> cache_up env"
  then show "snd (snd (connect verifyMessage secret env body db cache))
              (session_key (generateSessionId (now_sid env) (rnd_sid env))) \<noteq> None"
    using connect_success_cache by blast
next
  assume "\<not> is_success (fst (connect verifyMessage secret env body db cache))"
  then show "snd (snd (connect verifyMessage secret env body db cache)) = cache"
    by (rule connect_failure_cache)
qed

theorem session_durable_before_cache_witness:
  "snd (snd (connect ex_verifyMessage ex_secret ex_env ex_body ex_db ex_cache))
       (session_key ex_session_id) \<noteq> ex_cache (session_key ex_session_id)
   \<and> ex_session_id \<in> set (map s_session_id (api_sessions ex_db_after))
   \<and> fst (connect ex_verifyMessage ex_secret (ex_env\<lparr>cache_up := False\<rparr>) ex_body ex_db ex_cache)
       = Success ex_connect_ok
   \<and> fst (snd (connect ex_verifyMessage ex_secret (ex_env\<lparr>cache_up := False\<rparr>) ex_body ex_db
        ex_cache)) = ex_db_after"
proof -
  note inst = session_durable_before_cache [of ex_verifyMessage ex_body _ ex_env ex_db _ _
      ex_secret ex_cache]
  have changed: "snd (snd (connect ex_verifyMessage ex_secret ex_env ex_body ex_db ex_cache))
       (session_key ex_session_id) \<noteq> ex_cache (session_key ex_session_id)"
    by (simp add: ex_connect ex_cache_after_differs)
  with inst have "generateSessionId (now_sid ex_env) (rnd_sid ex_env)
      \<in> set (map s_session_id (api_sessions
           (fst (snd (connect ex_verifyMessage ex_secret ex_env ex_body ex_db ex_cache)))))"
    by blast
  moreover have "generateSessionId (now_sid ex_env) (rnd_sid ex_env) = ex_session_id"
    by (simp add: ex_env_def ex_session_id_eq)
  ultimately have durable: "ex_session_id \<in> set (map s_session_id (api_sessions ex_db_after))"
    by (simp add: ex_connect)
  from inst ex_connect
  have silent: "fst (connect ex_verifyMessage ex_secret (ex_env\<lparr>cache_up := False\<rparr>) ex_body ex_db
      ex_cache) = Success ex_connect_ok"
    by simp
  from inst ex_connect
  have db: "fst (snd (connect ex_verifyMessage ex_secret (ex_env\<lparr>cache_up := False\<rparr>) ex_body ex_db
        ex_cache)) = ex_db_after"
    by simp
  from changed durable silent db show ?thesis by blast
qed

subsection \<open>Disconnect\<close>

text \<open>
  Claim C7, as the code has it. Disconnect with a non-empty session identifier, present in
  the stores or not, succeeds exactly when the delete in the database does not throw; a
  database error is answered 500 \<open>INTERNAL_ERROR\<close> and changes nothing. After a success
  the database is without the session. The cache is without it when the delete in Redis
  goes through; when that delete fails, \<open>RedisService.del\<close> swallows the error,
  disconnect still succeeds and the cache is left as it was. A second disconnect, with the
  database answering, succeeds and leaves the database as the first left it, and the
  cache too when the first delete in Redis went through. With the header missing or empty
  disconnect succeeds and deletes nothing.
\<close>

theorem disconnect_idempotent:
  "disconnect env None db cache = (Success (), db, cache)
   \<and> disconnect env (Some []) db cache = (Success (), db, cache)
   \<and> (sessionId \<noteq> []
      \<longrightarrow> fst (disconnect env (Some sessionId) db cache)
            = (if delete_up env then Success () else Failure 500 ''INTERNAL_ERROR'')
          \<and> (delete_up env
              \<longrightarrow> sessionId \<notin> set (map s_session_id
                    (api_sessions (fst (snd (disconnect env (Some sessionId) db cache))))))
          \<and> (delete_up env \<and> del_up env
              \<longrightarrow> snd (snd (disconnect env (Some sessionId) db cache))
                    (session_key sessionId) = None)
          \<and> (\<not> (delete_up env \<and> del_up env)
              \<longrightarrow> snd (snd (disconnect env (Some sessionId) db cache)) = cache)
          \<and> (\<not> delete_up env
              \<longrightarrow> fst (snd (disconnect env (Some sessionId) db cache)) = db)
          \<and> (delete_up env \<and> delete_up env2
              \<longrightarrow> fst (disconnect env2 (Some sessionId)
                         (fst (snd (disconnect env (Some sessionId) db cache)))
                         (snd (snd (disconnect env (Some sessionId) db cache)))) = Success ()
                  \<and> fst (snd (disconnect env2 (Some sessionId)
                         (fst (snd (disconnect env (Some sessionId) db cache)))
                         (snd (snd (disconnect env (Some sessionId) db cache)))))
                     = fst (snd (disconnect env (Some sessionId) db cache))
                  \<and> (del_up env
                      \<longrightarrow> snd (snd (disconnect env2 (Some sessionId)
                             (fst (snd (disconnect env (Some sessionId) db cache)))
                             (snd (snd (disconnect env (Some sessionId) db cache)))))
                          = snd (snd (disconnect env (Some sessionId) db cache)))))"
  by (auto simp: disconnect_def deleteSession_def invalidateUserSession_def redis_del_def)

theorem disconnect_idempotent_witness:
  "ex_session_id \<noteq> [] \<and> delete_up ex_disconnect_env \<and> del_up ex_disconnect_env
   \<and> ex_session_id \<in> set (map s_session_id (api_sessions ex_db_after))
   \<and> ex_cache_after (session_key ex_session_id) \<noteq> None
   \<and> fst (disconnect ex_disconnect_env (Some ex_session_id) ex_db_after ex_cache_after)
       = Success ()
   \<and> ex_session_id \<notin> set (map s_session_id (api_sessions
         (fst (snd (disconnect ex_disconnect_env (Some ex_session_id) ex_db_after
            ex_cache_after)))))
   \<and> snd (snd (disconnect ex_disconnect_env (Some ex_session_id) ex_db_after ex_cache_after))
        (session_key ex_session_id) = None
   \<and> fst (disconnect ex_disconnect_env (Some ex_session_id)
         (fst (snd (disconnect ex_disconnect_env (Some ex_session_id) ex_db_after
            ex_cache_after)))
         (snd (snd (disconnect ex_disconnect_env (Some ex_session_id) ex_db_after
            ex_cache_after)))) = Success ()"
proof -
  have ne: "ex_session_id \<noteq> []"
    by (simp add: ex_session_id_def)
  have up: "delete_up ex_disconnect_env" "del_up ex_disconnect_env"
    by (simp_all add: ex_disconnect_env_def)
  have there: "ex_session_id \<in> set (map s_session_id (api_sessions ex_db_after))"
    by (simp add: ex_db_after_def)
  have cached: "ex_cache_after (session_key ex_session_id) \<noteq> None"
    by (simp add: ex_cache_after_def)
  note inst = disconnect_idempotent [of ex_disconnect_env ex_db_after ex_cache_after
      ex_session_id ex_disconnect_env]
  from inst ne up
  have first: "fst (disconnect ex_disconnect_env (Some ex_session_id) ex_db_after ex_cache_after)
       = Success ()"
    by simp
  from inst ne up
  have gone: "ex_session_id \<notin> set (map s_session_id (api_sessions
         (fst (snd (disconnect ex_disconnect_env (Some ex_session_id) ex_db_after
            ex_cache_after)))))"
    by blast
  from inst ne up
  have evicted: "snd (snd (disconnect ex_disconnect_env (Some ex_session_id) ex_db_after
        ex_cache_after)) (session_key ex_session_id) = None"
    by blast
  from inst ne up
  have second: "fst (disconnect ex_disconnect_env (Some ex_session_id)
         (fst (snd (disconnect ex_disconnect_env (Some ex_session_id) ex_db_after
            ex_cache_after)))
         (snd (snd (disconnect ex_disconnect_env (Some ex_session_id) ex_db_after
            ex_cache_after)))) = Success ()"
    by blast
  from ne up there cached first gone evicted second show ?thesis by blast
qed

text \<open>
  Claim C7 as stated has disconnect always succeed and leave both stores without the
  session. While Redis does not answer, two disconnects in sequence both succeed and the
  cached session is still returned; while the database does not answer, disconnect is
  answered 500.
\<close>

theorem disconnect_store_down_counterexample:
  "disconnect ex_disconnect_env_cache_down (Some ex_session_id) ex_db_after ex_cache_after
     = (Success (), ex_db_after\<lparr>api_sessions := []\<rparr>, ex_cache_after)
   \<and> disconnect ex_disconnect_env_cache_down (Some ex_session_id)
       (ex_db_after\<lparr>api_sessions := []\<rparr>) ex_cache_after
     = (Success (), ex_db_after\<lparr>api_sessions := []\<rparr>, ex_cache_after)
   \<and> getCachedUserSession ex_cache_after True 1700000002000 ex_session_id
     = Some \<lparr>cs_userId = 1, cs_walletAddress = ex_wallet, cs_username = Some ''alice_defi''\<rparr>
   \<and> disconnect ex_disconnect_env_db_down (Some ex_session_id) ex_db_after ex_cache_after
     = (Failure 500 ''INTERNAL_ERROR'', ex_db_after, ex_cache_after)"
  by (simp add: disconnect_def deleteSession_def invalidateUserSession_def redis_del_def
      ex_disconnect_env_cache_down_def ex_disconnect_env_db_down_def ex_db_after_def
      ex_session_id_def getCachedUserSession_def redis_get_def ex_cache_after_def)

subsection \<open>Refresh\<close>




subsection \<open>Looking a session up\<close>

lemma connect_success_parts:
  assumes "connect verifyMessage secret env body db cache = (Success ok, db', cache')"
  shows "\<exists>u db1 row.
           createUser db (upsert_up env) (now_upsert env) (b_walletAddress body)
             (b_username body) (b_email body) = Some (u, db1)
         \<and> createSession db1 (insert_up env) (now_insert env)
             (generateSessionId (now_sid env) (rnd_sid env)) (u_id u) (u_wallet_address u)
             (now_expiry env + 7 * 24 * 60 * 60 * 1000) = Some (row, db')
         \<and> cache' = snd (cacheUserSession cache (cache_up env) (now_cache env)
             (generateSessionId (now_sid env) (rnd_sid env))
             \<lparr>cs_userId = u_id u, cs_walletAddress = u_wallet_address u,
              cs_username = u_username u\<rparr> (7 * 24 * 60 * 60))
         \<and> r_sessionId ok = generateSessionId (now_sid env) (rnd_sid env)"
  using assms
  by (auto simp: connect_def Let_def split: option.splits if_splits prod.splits)

lemma createSession_parts:
  assumes "createSession db up now sessionId userId walletAddress expiresAt = Some (row, db')"
  shows "api_sessions db' = api_sessions db @ [row]" and "users db' = users db"
    and "sessionId \<notin> set (map s_session_id (api_sessions db))"
    and "userId \<in> set (map u_id (users db))"
    and "s_session_id row = sessionId" and "s_user_id row = userId"
    and "s_expires_at row = expiresAt"
  using assms
  by (auto simp: createSession_def Let_def split: if_splits)

lemma joined_rows_empty:
  "[(s, u). s \<leftarrow> rows, u \<leftarrow> us,
      s_user_id s = u_id u, s_session_id s = sessionId, s_expires_at s > now] = []
   \<longleftrightarrow> \<not> (\<exists>s \<in> set rows. \<exists>u \<in> set us.
            s_user_id s = u_id u \<and> s_session_id s = sessionId \<and> now < s_expires_at s)"
proof -
  have "set [(s, u). s \<leftarrow> rows, u \<leftarrow> us,
      s_user_id s = u_id u, s_session_id s = sessionId, s_expires_at s > now]
    = {(s, u). s \<in> set rows \<and> u \<in> set us
         \<and> s_user_id s = u_id u \<and> s_session_id s = sessionId \<and> now < s_expires_at s}"
    by (auto split: if_splits)
  then have "set [(s, u). s \<leftarrow> rows, u \<leftarrow> us,
      s_user_id s = u_id u, s_session_id s = sessionId, s_expires_at s > now] = {}
   \<longleftrightarrow> \<not> (\<exists>s \<in> set rows. \<exists>u \<in> set us.
            s_user_id s = u_id u \<and> s_session_id s = sessionId \<and> now < s_expires_at s)"
    by (simp only:) blast
  then show ?thesis
    unfolding set_empty .
qed

lemma getSession_none_iff:
  "getSession db True now sessionId = Some None
     \<longleftrightarrow> \<not> (\<exists>s \<in> set (api_sessions db). \<exists>u \<in> set (users db).
            s_user_id s = u_id u \<and> s_session_id s = sessionId \<and> now < s_expires_at s)"
proof -
  define joined where "joined = [(s, u). s \<leftarrow> api_sessions db, u \<leftarrow> users db,
           s_user_id s = u_id u, s_session_id s = sessionId, s_expires_at s > now]"
  have "getSession db True now sessionId = Some None \<longleftrightarrow> joined = []"
    unfolding getSession_def joined_def [symmetric]
    by (cases joined) simp_all
  also have "joined = [] \<longleftrightarrow> \<not> (\<exists>s \<in> set (api_sessions db). \<exists>u \<in> set (users db).
            s_user_id s = u_id u \<and> s_session_id s = sessionId \<and> now < s_expires_at s)"
    unfolding joined_def by (rule joined_rows_empty)
  finally show ?thesis .
qed

lemma getSession_after_createSession:
  assumes "createSession db up written sessionId userId walletAddress expiresAt = Some (row, db')"
  shows "getSession db' True now sessionId = Some None \<longleftrightarrow> expiresAt \<le> now"
proof -
  note parts = createSession_parts [OF assms]
  from parts(4) obtain u where u: "u \<in> set (users db)" "u_id u = userId"
    by auto
  have rows: "set (api_sessions db') = insert row (set (api_sessions db))"
    using parts(1) by simp
  have old: "\<forall>s \<in> set (api_sessions db). s_session_id s \<noteq> sessionId"
    using parts(3) by auto
  show ?thesis
  proof
    assume none: "getSession db' True now sessionId = Some None"
    show "expiresAt \<le> now"
    proof (rule ccontr)
      assume "\<not> expiresAt \<le> now"
      then have "now < s_expires_at row"
        using parts(7) by simp
      moreover have "row \<in> set (api_sessions db')" "u \<in> set (users db')"
        using rows u(1) parts(2) by simp_all
      moreover have "s_user_id row = u_id u" "s_session_id row = sessionId"
        using parts(5,6) u(2) by simp_all
      ultimately show False
        using none unfolding getSession_none_iff by blast
    qed
  next
    assume late: "expiresAt \<le> now"
    have "\<not> (\<exists>s \<in> set (api_sessions db'). \<exists>u \<in> set (users db').
            s_user_id s = u_id u \<and> s_session_id s = sessionId \<and> now < s_expires_at s)"
    proof
      assume "\<exists>s \<in> set (api_sessions db'). \<exists>u \<in> set (users db').
            s_user_id s = u_id u \<and> s_session_id s = sessionId \<and> now < s_expires_at s"
      then obtain s where s: "s \<in> set (api_sessions db')" "s_session_id s = sessionId"
          "now < s_expires_at s"
        by blast
      with rows old have "s = row"
        by auto
      with s(3) parts(7) late show False
        by simp
    qed
    then show "getSession db' True now sessionId = Some None"
      unfolding getSession_none_iff .
  qed
qed

lemma cached_after_write:
  "getCachedUserSession (snd (cacheUserSession cache True written sessionId userData ttl))
        True now sessionId
       = (if ttl = 0 \<or> now < written + ttl * 1000 then Some userData else None)"
  by (simp add: getCachedUserSession_def cacheUserSession_def redis_set_def redis_get_def)

text \<open>
  Claim C5, as the code has it. The durable query filters on expiry: when every row of
  the session has an \<open>expires_at\<close> that has passed, \<open>getSession\<close> finds nothing, and a
  row it returns has not expired. The cache read compares no recorded expiry: after
  \<open>cacheUserSession\<close>, \<open>getCachedUserSession\<close> returns the payload until the time to
  live, counted from the instant Redis wrote it, has run out. For the session of a
  successful connect, \<open>getSession\<close> finds nothing exactly from 7 days after the clock
  reading that \<open>expiresAt\<close> was computed from, and \<open>getCachedUserSession\<close> finds nothing
  exactly from 7 days after the instant of the cache write. Between the two instants,
  when the cache write is the later one, the durable query finds no session and the cache
  still returns it.
\<close>

theorem session_expiry_per_store:
  "((\<forall>s \<in> set (api_sessions db). s_session_id s = sessionId \<longrightarrow> s_expires_at s \<le> now)
      \<longrightarrow> getSession db True now sessionId = Some None)
   \<and> (getSession db up now sessionId = Some (Some (row, u))
      \<longrightarrow> s_session_id row = sessionId \<and> now < s_expires_at row)
   \<and> getCachedUserSession (snd (cacheUserSession cache True written sessionId userData ttl))
        True now sessionId
       = (if ttl = 0 \<or> now < written + ttl * 1000 then Some userData else None)
   \<and> (connect verifyMessage secret env body db0 cache0 = (Success ok, db', cache')
      \<longrightarrow> (getSession db' True now (r_sessionId ok) = Some None
             \<longleftrightarrow> now_expiry env + 7 * 24 * 60 * 60 * 1000 \<le> now)
          \<and> (cache_up env
              \<longrightarrow> (getCachedUserSession cache' True now (r_sessionId ok) = None
                     \<longleftrightarrow> now_cache env + 7 * 24 * 60 * 60 * 1000 \<le> now))
          \<and> (cache_up env \<and> now_expiry env + 7 * 24 * 60 * 60 * 1000 \<le> now
               \<and> now < now_cache env + 7 * 24 * 60 * 60 * 1000
              \<longrightarrow> getSession db' True now (r_sessionId ok) = Some None
                  \<and> getCachedUserSession cache' True now (r_sessionId ok) \<noteq> None))"
proof (intro conjI impI)
  assume "\<forall>s \<in> set (api_sessions db). s_session_id s = sessionId \<longrightarrow> s_expires_at s \<le> now"
  then have "\<not> (\<exists>s \<in> set (api_sessions db). \<exists>u \<in> set (users db).
            s_user_id s = u_id u \<and> s_session_id s = sessionId \<and> now < s_expires_at s)"
    by (meson not_le)
  then show "getSession db True now sessionId = Some None"
    unfolding getSession_none_iff .
next
  assume a: "getSession db up now sessionId = Some (Some (row, u))"
  define joined where "joined = [(s, u). s \<leftarrow> api_sessions db, u \<leftarrow> users db,
                 s_user_id s = u_id u, s_session_id s = sessionId, s_expires_at s > now]"
  from a obtain rest where "joined = (row, u) # rest"
    unfolding getSession_def joined_def [symmetric]
    by (cases joined) (simp_all split: if_splits)
  then have "(row, u) \<in> set joined"
    by simp
  then show "s_session_id row = sessionId" and "now < s_expires_at row"
    unfolding joined_def by (auto split: if_splits)
next
  show "getCachedUserSession (snd (cacheUserSession cache True written sessionId userData ttl))
        True now sessionId
       = (if ttl = 0 \<or> now < written + ttl * 1000 then Some userData else None)"
    by (rule cached_after_write)
next
  assume run: "connect verifyMessage secret env body db0 cache0 = (Success ok, db', cache')"
  from connect_success_parts [OF run]
  obtain u1 :: user and db1 row1 where
    ins: "createSession db1 (insert_up env) (now_insert env)
             (generateSessionId (now_sid env) (rnd_sid env)) (u_id u1) (u_wallet_address u1)
             (now_expiry env + 7 * 24 * 60 * 60 * 1000) = Some (row1, db')"
    and cached: "cache' = snd (cacheUserSession cache0 (cache_up env) (now_cache env)
             (generateSessionId (now_sid env) (rnd_sid env))
             \<lparr>cs_userId = u_id u1, cs_walletAddress = u_wallet_address u1,
              cs_username = u_username u1\<rparr> (7 * 24 * 60 * 60))"
    and sid: "r_sessionId ok = generateSessionId (now_sid env) (rnd_sid env)"
    by blast
  show durable: "getSession db' True now (r_sessionId ok) = Some None
             \<longleftrightarrow> now_expiry env + 7 * 24 * 60 * 60 * 1000 \<le> now"
    unfolding sid by (rule getSession_after_createSession [OF ins])
  have hit: "getCachedUserSession cache' True now (r_sessionId ok) = None
                     \<longleftrightarrow> now_cache env + 7 * 24 * 60 * 60 * 1000 \<le> now" if "cache_up env"
    using that unfolding sid cached by (simp add: cached_after_write)
  then show "getCachedUserSession cache' True now (r_sessionId ok) = None
                     \<longleftrightarrow> now_cache env + 7 * 24 * 60 * 60 * 1000 \<le> now" if "cache_up env"
    using that .
  assume window: "cache_up env \<and> now_expiry env + 7 * 24 * 60 * 60 * 1000 \<le> now
               \<and> now < now_cache env + 7 * 24 * 60 * 60 * 1000"
  with durable show "getSession db' True now (r_sessionId ok) = Some None"
    by blast
  from window hit show "getCachedUserSession cache' True now (r_sessionId ok) \<noteq> None"
    by simp
qed

theorem session_expiry_per_store_witness:
  "connect ex_verifyMessage ex_secret ex_env ex_body ex_db ex_cache
     = (Success ex_connect_ok, ex_db_after, ex_cache_after)
   \<and> cache_up ex_env
   \<and> now_expiry ex_env + 7 * 24 * 60 * 60 * 1000 = 1700604801003
   \<and> now_cache ex_env + 7 * 24 * 60 * 60 * 1000 = 1700604801008
   \<and> getSession ex_db_after True 1700604801003 (r_sessionId ex_connect_ok) = Some None
   \<and> getSession ex_db_after True 1700604801002 (r_sessionId ex_connect_ok) \<noteq> Some None
   \<and> getCachedUserSession ex_cache_after True 1700604801007 (r_sessionId ex_connect_ok) \<noteq> None
   \<and> getCachedUserSession ex_cache_after True 1700604801008 (r_sessionId ex_connect_ok) = None"
proof -
  have up: "cache_up ex_env"
    and e: "now_expiry ex_env + 7 * 24 * 60 * 60 * 1000 = 1700604801003"
    and c: "now_cache ex_env + 7 * 24 * 60 * 60 * 1000 = 1700604801008"
    by (simp_all add: ex_env_def)
  note a = session_expiry_per_store [of _ _ 1700604801003 _ _ _ _ _ _ _
      ex_verifyMessage ex_secret ex_env ex_body ex_db ex_cache ex_connect_ok ex_db_after
      ex_cache_after]
  note b = session_expiry_per_store [of _ _ 1700604801002 _ _ _ _ _ _ _
      ex_verifyMessage ex_secret ex_env ex_body ex_db ex_cache ex_connect_ok ex_db_after
      ex_cache_after]
  note d = session_expiry_per_store [of _ _ 1700604801007 _ _ _ _ _ _ _
      ex_verifyMessage ex_secret ex_env ex_body ex_db ex_cache ex_connect_ok ex_db_after
      ex_cache_after]
  note f = session_expiry_per_store [of _ _ 1700604801008 _ _ _ _ _ _ _
      ex_verifyMessage ex_secret ex_env ex_body ex_db ex_cache ex_connect_ok ex_db_after
      ex_cache_after]
  from a ex_connect e
  have gone: "getSession ex_db_after True 1700604801003 (r_sessionId ex_connect_ok) = Some None"
    by simp
  from b ex_connect e
  have live: "getSession ex_db_after True 1700604801002 (r_sessionId ex_connect_ok) \<noteq> Some None"
    by simp
  from d ex_connect up c
  have hit: "getCachedUserSession ex_cache_after True 1700604801007 (r_sessionId ex_connect_ok)
      \<noteq> None"
    by simp
  from f ex_connect up c
  have miss: "getCachedUserSession ex_cache_after True 1700604801008 (r_sessionId ex_connect_ok)
      = None"
    by simp
  from ex_connect up e c gone live hit miss show ?thesis by blast
qed

text \<open>
  Claim C5 as stated has a cache hit never outlive the recorded expiry. In the scenario
  Redis writes the entry 5 ms after \<open>expiresAt\<close> was computed; 2 ms after the recorded
  expiry the durable query finds no session and the cache still returns it.
\<close>

theorem expired_session_cache_hit_counterexample:
  "getSession (fst (snd (connect ex_verifyMessage ex_secret ex_env ex_body ex_db ex_cache)))
       True 1700604801005 ex_session_id = Some None
   \<and> getCachedUserSession
        (snd (snd (connect ex_verifyMessage ex_secret ex_env ex_body ex_db ex_cache)))
        True 1700604801005 ex_session_id
       = Some \<lparr>cs_userId = 1, cs_walletAddress = ex_wallet, cs_username = Some ''alice_defi''\<rparr>"
  by (simp add: ex_connect getSession_def ex_db_after_def getCachedUserSession_def
      redis_get_def ex_cache_after_def)

subsection \<open>Upserting a user\<close>

lemma find_map_replace:
  "find (\<lambda>r. u_wallet_address r = a) rows = Some old \<Longrightarrow> u_wallet_address row = a \<Longrightarrow>
   find (\<lambda>r. u_wallet_address r = a)
     (map (\<lambda>r. if u_wallet_address r = a then row else r) rows) = Some row"
  by (induction rows) (auto split: if_splits)

lemma find_append_new:
  "find P rows = None \<Longrightarrow> P row \<Longrightarrow> find P (rows @ [row]) = Some row"
  by (induction rows) (auto split: if_splits)

text \<open>
  Claim C8. When the statement is accepted (the pool answers and the values fit their
  columns), \<open>createUser\<close> on an address already in the table replaces \<open>username\<close> and
  \<open>email\<close> only where a value is given, keeps them where it is omitted, sets
  \<open>updated_at\<close> to the current instant, keeps the other columns, and leaves every other
  row and the sessions as they were. On an address not in the table it appends a new row
  with the values given.
\<close>

theorem createUser_upsert:
  assumes "length walletAddress \<le> 42" and "fits 50 username" and "fits 255 email"
  shows "(find (\<lambda>r. u_wallet_address r = walletAddress) (users db) = Some old
          \<longrightarrow> (\<exists>row db'. createUser db True now walletAddress username email = Some (row, db')
                \<and> u_username row = (case username of None \<Rightarrow> u_username old | Some x \<Rightarrow> Some x)
                \<and> u_email row = (case email of None \<Rightarrow> u_email old | Some x \<Rightarrow> Some x)
                \<and> u_updated_at row = now
                \<and> u_id row = u_id old \<and> u_wallet_address row = walletAddress
                \<and> u_preferences row = u_preferences old \<and> u_created_at row = u_created_at old
                \<and> getUserByWallet db' True walletAddress = Some (Some row)
                \<and> length (users db') = length (users db)
                \<and> (\<forall>a. a \<noteq> walletAddress
                      \<longrightarrow> getUserByWallet db' True a = getUserByWallet db True a)
                \<and> api_sessions db' = api_sessions db))
       \<and> (find (\<lambda>r. u_wallet_address r = walletAddress) (users db) = None
           \<and> users_id_seq db \<notin> set (map u_id (users db))
          \<longrightarrow> (\<exists>row db'. createUser db True now walletAddress username email = Some (row, db')
                \<and> u_wallet_address row = walletAddress
                \<and> u_username row = username \<and> u_email row = email
                \<and> u_created_at row = now \<and> u_updated_at row = now
                \<and> users db' = users db @ [row]
                \<and> getUserByWallet db' True walletAddress = Some (Some row)
                \<and> api_sessions db' = api_sessions db))"
proof (intro conjI impI)
  assume seen: "find (\<lambda>r. u_wallet_address r = walletAddress) (users db) = Some old"
  then have addr: "u_wallet_address old = walletAddress"
    by (auto simp: find_Some_iff)
  define row where "row = old\<lparr>u_username := coalesce username (u_username old),
                              u_email := coalesce email (u_email old),
                              u_updated_at := now\<rparr>"
  define db' where "db' = db\<lparr>users := map (\<lambda>r. if u_wallet_address r = walletAddress then row else r)
                                    (users db),
                        users_id_seq := users_id_seq db + 1\<rparr>"
  have run: "createUser db True now walletAddress username email = Some (row, db')"
    using assms seen by (simp add: createUser_def Let_def row_def db'_def)
  have row_addr: "u_wallet_address row = walletAddress"
    using addr by (simp add: row_def)
  have mine: "getUserByWallet db' True walletAddress = Some (Some row)"
    using find_map_replace [OF seen row_addr] by (simp add: getUserByWallet_def db'_def)
  have others: "\<forall>a. a \<noteq> walletAddress
                      \<longrightarrow> getUserByWallet db' True a = getUserByWallet db True a"
  proof (intro allI impI)
    fix a assume ne: "a \<noteq> walletAddress"
    have "find (\<lambda>r. u_wallet_address r = a)
            (map (\<lambda>r. if u_wallet_address r = walletAddress then row else r) rows)
          = find (\<lambda>r. u_wallet_address r = a) rows" for rows
      using ne row_addr by (induction rows) auto
    then show "getUserByWallet db' True a = getUserByWallet db True a"
      by (simp add: getUserByWallet_def db'_def)
  qed
  show "\<exists>row db'. createUser db True now walletAddress username email = Some (row, db')
                \<and> u_username row = (case username of None \<Rightarrow> u_username old | Some x \<Rightarrow> Some x)
                \<and> u_email row = (case email of None \<Rightarrow> u_email old | Some x \<Rightarrow> Some x)
                \<and> u_updated_at row = now
                \<and> u_id row = u_id old \<and> u_wallet_address row = walletAddress
                \<and> u_preferences row = u_preferences old \<and> u_created_at row = u_created_at old
                \<and> getUserByWallet db' True walletAddress = Some (Some row)
                \<and> length (users db') = length (users db)
                \<and> (\<forall>a. a \<noteq> walletAddress
                      \<longrightarrow> getUserByWallet db' True a = getUserByWallet db True a)
                \<and> api_sessions db' = api_sessions db"
    using run mine others row_addr
    by (intro exI [of _ row] exI [of _ db'])
       (simp add: row_def db'_def coalesce_def split: option.splits)
next
  assume unseen: "find (\<lambda>r. u_wallet_address r = walletAddress) (users db) = None
           \<and> users_id_seq db \<notin> set (map u_id (users db))"
  define row where "row = \<lparr>u_id = users_id_seq db, u_wallet_address = walletAddress,
                              u_username = username, u_email = email,
                              u_preferences = ''{}'', u_created_at = now, u_updated_at = now\<rparr>"
  define db' where "db' = db\<lparr>users := users db @ [row], users_id_seq := users_id_seq db + 1\<rparr>"
  have run: "createUser db True now walletAddress username email = Some (row, db')"
    using assms unseen by (simp add: createUser_def Let_def row_def db'_def)
  have "find (\<lambda>r. u_wallet_address r = walletAddress) (users db @ [row]) = Some row"
    using unseen by (intro find_append_new) (simp_all add: row_def)
  then have mine: "getUserByWallet db' True walletAddress = Some (Some row)"
    by (simp add: getUserByWallet_def db'_def)
  show "\<exists>row db'. createUser db True now walletAddress username email = Some (row, db')
                \<and> u_wallet_address row = walletAddress
                \<and> u_username row = username \<and> u_email row = email
                \<and> u_created_at row = now \<and> u_updated_at row = now
                \<and> users db' = users db @ [row]
                \<and> getUserByWallet db' True walletAddress = Some (Some row)
                \<and> api_sessions db' = api_sessions db"
    using run mine
    by (intro exI [of _ row] exI [of _ db']) (simp add: row_def db'_def)
qed

theorem createUser_upsert_witness:
  "length ex_wallet \<le> 42 \<and> fits 50 None \<and> fits 255 (Some ''alice@psyfi.io'')
   \<and> find (\<lambda>r. u_wallet_address r = ex_wallet) (users ex_db) = Some ex_user
   \<and> createUser ex_db True 1700000001001 ex_wallet None (Some ''alice@psyfi.io'')
       = Some (ex_user\<lparr>u_email := Some ''alice@psyfi.io'', u_updated_at := 1700000001001\<rparr>,
               \<lparr>users = [ex_user\<lparr>u_email := Some ''alice@psyfi.io'',
                                  u_updated_at := 1700000001001\<rparr>],
                users_id_seq = 3, api_sessions = []\<rparr>)
   \<and> u_username (ex_user\<lparr>u_email := Some ''alice@psyfi.io'', u_updated_at := 1700000001001\<rparr>)
       = Some ''alice_defi''
   \<and> find (\<lambda>r. u_wallet_address r = ''0x1234567890123456789012345678901234567890'')
         (users ex_db) = None
   \<and> getUserByWallet
         (snd (the (createUser ex_db True 1700000001001
            ''0x1234567890123456789012345678901234567890'' (Some ''bob_trader'') None)))
         True ''0x1234567890123456789012345678901234567890''
       = Some (Some \<lparr>u_id = 2,
            u_wallet_address = ''0x1234567890123456789012345678901234567890'',
            u_username = Some ''bob_trader'', u_email = None, u_preferences = ''{}'',
            u_created_at = 1700000001001, u_updated_at = 1700000001001\<rparr>)"
proof -
  have len: "length ex_wallet \<le> 42" "fits 50 None" "fits 255 (Some ''alice@psyfi.io'')"
    by (simp_all add: ex_wallet_def fits_def)
  have seen: "find (\<lambda>r. u_wallet_address r = ex_wallet) (users ex_db) = Some ex_user"
    by (simp add: ex_db_def ex_user_def)
  have run: "createUser ex_db True 1700000001001 ex_wallet None (Some ''alice@psyfi.io'')
       = Some (ex_user\<lparr>u_email := Some ''alice@psyfi.io'', u_updated_at := 1700000001001\<rparr>,
               \<lparr>users = [ex_user\<lparr>u_email := Some ''alice@psyfi.io'',
                                  u_updated_at := 1700000001001\<rparr>],
                users_id_seq = 3, api_sessions = []\<rparr>)"
    by (simp add: createUser_def ex_db_def ex_user_def ex_wallet_def fits_def coalesce_def Let_def)
  from createUser_upsert [OF len, of ex_db ex_user 1700000001001] seen run
  have kept: "u_username (ex_user\<lparr>u_email := Some ''alice@psyfi.io'',
                  u_updated_at := 1700000001001\<rparr>) = u_username ex_user"
    by auto
  have name: "u_username ex_user = Some ''alice_defi''"
    by (simp add: ex_user_def)
  have len2: "length ''0x1234567890123456789012345678901234567890'' \<le> 42"
    "fits 50 (Some ''bob_trader'')" "fits 255 None"
    by (simp_all add: fits_def)
  have unseen: "find (\<lambda>r. u_wallet_address r = ''0x1234567890123456789012345678901234567890'')
         (users ex_db) = None"
    by (simp add: ex_db_def ex_user_def ex_wallet_def)
  have free: "users_id_seq ex_db \<notin> set (map u_id (users ex_db))"
    by (simp add: ex_db_def ex_user_def)
  have run2: "createUser ex_db True 1700000001001
            ''0x1234567890123456789012345678901234567890'' (Some ''bob_trader'') None
       = Some (\<lparr>u_id = 2,
            u_wallet_address = ''0x1234567890123456789012345678901234567890'',
            u_username = Some ''bob_trader'', u_email = None, u_preferences = ''{}'',
            u_created_at = 1700000001001, u_updated_at = 1700000001001\<rparr>,
          \<lparr>users = [ex_user, \<lparr>u_id = 2,
            u_wallet_address = ''0x1234567890123456789012345678901234567890'',
            u_username = Some ''bob_trader'', u_email = None, u_preferences = ''{}'',
            u_created_at = 1700000001001, u_updated_at = 1700000001001\<rparr>],
           users_id_seq = 3, api_sessions = []\<rparr>)"
    by (simp add: createUser_def ex_db_def ex_user_def ex_wallet_def fits_def Let_def)
  from createUser_upsert [OF len2, of ex_db _ 1700000001001] unseen free run2
  have new: "getUserByWallet
         (snd (the (createUser ex_db True 1700000001001
            ''0x1234567890123456789012345678901234567890'' (Some ''bob_trader'') None)))
         True ''0x1234567890123456789012345678901234567890''
       = Some (Some \<lparr>u_id = 2,
            u_wallet_address = ''0x1234567890123456789012345678901234567890'',
            u_username = Some ''bob_trader'', u_email = None, u_preferences = ''{}'',
            u_created_at = 1700000001001, u_updated_at = 1700000001001\<rparr>)"
    by auto
  from len seen run kept name unseen new show ?thesis by simp
qed

end
